theory Spec2Isabelle
  imports Main
begin

section \<open>The reflect values the injector works on\<close>

text \<open>
  The injector of package \<open>injector\<close> keys everything by \<open>reflect.Type\<close> and stores
  \<open>reflect.Value\<close>s. Of a type the code only asks its kind, the element of a pointer,
  the signature of a function and whether it is assignable to another type.
\<close>

datatype kind = Ptr | Interface | Func | OtherKind

datatype rtype =
    TNamed string
  | TPtr rtype
  | TInterface string
  | TFunc "rtype list" bool "rtype list"

fun Kind :: "rtype \<Rightarrow> kind" where
  "Kind (TNamed n) = OtherKind"
| "Kind (TPtr t) = Ptr"
| "Kind (TInterface n) = Interface"
| "Kind (TFunc ins variadic outs) = Func"

fun Ins :: "rtype \<Rightarrow> rtype list" where
  "Ins (TFunc ins variadic outs) = ins"
| "Ins t = []"

fun IsVariadic :: "rtype \<Rightarrow> bool" where
  "IsVariadic (TFunc ins variadic outs) = variadic"
| "IsVariadic t = False"

fun Outs :: "rtype \<Rightarrow> rtype list" where
  "Outs (TFunc ins variadic outs) = outs"
| "Outs t = []"

definition NumOut :: "rtype \<Rightarrow> nat" where
  "NumOut t = length (Outs t)"

text \<open>\<open>errType\<close> of the source: the type of the \<open>error\<close> interface.\<close>

definition errType :: rtype where
  "errType = TInterface ''error''"

text \<open>
  Errors. \<open>Error msg\<close> is the struct \<open>injector.Error{Message: msg}\<close>; \<open>Errorf f ops w\<close> is
  the result of \<open>fmt.Errorf\<close> with format \<open>f\<close>, the operands other than the \<open>%w\<close> one
  rendered as strings, and the wrapped error \<open>w\<close>; \<open>Foreign t msg\<close> is an error of any
  other implementation, of dynamic type \<open>t\<close> (what a vivifier or a target returns).
\<close>

datatype error =
    Error string
  | Errorf string "string list" error
  | Foreign rtype string

definition ErrNil :: error where "ErrNil = Error ''cannot inject nil''"
definition ErrDuplicate :: error where "ErrDuplicate = Error ''object of type already available''"
definition ErrBadInterface :: error where "ErrBadInterface = Error ''bad interface type''"
definition ErrBadType :: error where "ErrBadType = Error ''cannot be assigned to type''"
definition ErrNoMethod :: error where "ErrNoMethod = Error ''no such method''"
definition ErrBadMethod :: error where "ErrBadMethod = Error ''method is not a function''"
definition ErrMissingValue :: error where "ErrMissingValue = Error ''injector missing value for type''"

text \<open>\<open>errors.Is\<close>: the error itself or an error it wraps equals the target.\<close>

fun errors_Is :: "error \<Rightarrow> error \<Rightarrow> bool" where
  "errors_Is (Errorf f ops w) target = (Errorf f ops w = target \<or> errors_Is w target)"
| "errors_Is e target = (e = target)"

fun error_type :: "error \<Rightarrow> rtype" where
  "error_type (Error msg) = TNamed ''injector.Error''"
| "error_type (Errorf f ops w) = TPtr (TNamed ''fmt.wrapError'')"
| "error_type (Foreign t msg) = t"

text \<open>
  An \<open>interface{}\<close> argument is \<open>NilObj\<close> (the nil interface), or holds a
  \<open>reflect.Value\<close> (\<open>OValue\<close>), a \<open>reflect.Type\<close> (\<open>OType\<close>), a value whose dynamic type
  implements \<open>error\<close> (\<open>OErr\<close>), or any other value, with its dynamic type (\<open>Obj\<close>).
  The type assertions of the source, \<open>obj.(reflect.Value)\<close>, \<open>iface.(reflect.Type)\<close> and
  \<open>.(error)\<close>, succeed on exactly the matching constructor.
  A \<open>reflect.Value\<close> is the zero Value or \<open>Val t x\<close>: static type \<open>t\<close>, and \<open>x\<close> what
  its method \<open>Interface()\<close> returns.
\<close>

datatype data = DInt int | DString string | DRef nat

datatype rvalue = ZeroValue | Val rtype obj
  and obj = NilObj | OValue rvalue | OType rtype | OErr error | Obj rtype data

text \<open>\<open>reflect.TypeOf\<close>; \<open>None\<close> is the nil \<open>reflect.Type\<close> it returns for a nil interface.\<close>

fun TypeOf :: "obj \<Rightarrow> rtype option" where
  "TypeOf NilObj = None"
| "TypeOf (OValue v) = Some (TNamed ''reflect.Value'')"
| "TypeOf (OType t) = Some (TPtr (TNamed ''reflect.rtype''))"
| "TypeOf (OErr e) = Some (error_type e)"
| "TypeOf (Obj t d) = Some t"

text \<open>\<open>reflect.ValueOf\<close>: the zero Value for a nil interface.\<close>

definition ValueOf :: "obj \<Rightarrow> rvalue" where
  "ValueOf x = (case TypeOf x of None \<Rightarrow> ZeroValue | Some t \<Rightarrow> Val t x)"

text \<open>\<open>Value.IsValid\<close>, and \<open>Value.Type\<close> and \<open>Value.Interface\<close>, which panic on the zero
  Value (\<open>None\<close>).\<close>

fun IsValid :: "rvalue \<Rightarrow> bool" where
  "IsValid ZeroValue = False"
| "IsValid (Val t x) = True"

fun Value_Type :: "rvalue \<Rightarrow> rtype option" where
  "Value_Type ZeroValue = None"
| "Value_Type (Val t x) = Some t"

fun Value_Interface :: "rvalue \<Rightarrow> obj option" where
  "Value_Interface ZeroValue = None"
| "Value_Interface (Val t x) = Some x"

section \<open>The injector, its vivifiers and the world around it\<close>

text \<open>
  A \<open>Vivifier\<close> is an object behind an interface: the injector holds its identity, its
  behaviour belongs to the environment. \<open>None\<close> for a map is Go's nil map, which the
  source tells from an empty one.
\<close>

type_synonym vivifier = nat

record Injector =
  Objects :: "(rtype \<rightharpoonup> rvalue) option"
  Vivifiers :: "(rtype \<rightharpoonup> vivifier) option"
  Fallback :: "vivifier option"

text \<open>What the injector does to the world: the vivifiers it runs and the targets it calls.\<close>

datatype event = EVivify vivifier rtype | ECall rvalue "rvalue list"

record state =
  injector :: Injector
  trace :: "event list"

text \<open>
  The environment is everything outside the repository:
  \<^item> \<open>assignable\<close>: the cases of \<open>Type.AssignableTo\<close> other than identical types
    (a type implementing an interface, and so on);
  \<^item> \<open>type_string\<close> and \<open>gosyntax\<close>: \<open>Type.String\<close> and the \<open>%#v\<close> rendering of \<open>fmt\<close>;
  \<^item> \<open>vivify\<close>: \<open>Vivify(inj, typ)\<close> of a vivifier, which may depend on what happened so
    far, reads the injector and, as its contract demands, does not modify it; \<open>None\<close> is
    a panic;
  \<^item> \<open>call\<close>: \<open>meth.Call(values)\<close>, the results of the target, \<open>None\<close> when it panics.
\<close>

record env =
  assignable :: "rtype \<Rightarrow> rtype \<Rightarrow> bool"
  type_string :: "rtype \<Rightarrow> string"
  gosyntax :: "rvalue \<Rightarrow> string"
  vivify :: "vivifier \<Rightarrow> event list \<Rightarrow> Injector \<Rightarrow> rtype \<Rightarrow> (obj \<times> error option) option"
  call :: "rvalue \<Rightarrow> event list \<Rightarrow> rvalue list \<Rightarrow> rvalue list option"

text \<open>\<open>Type.AssignableTo\<close>: identical types are assignable, whatever else is.\<close>

definition AssignableTo :: "env \<Rightarrow> rtype \<Rightarrow> rtype \<Rightarrow> bool" where
  "AssignableTo E v t = (v = t \<or> assignable E v t)"

text \<open>A call returns its results or panics.\<close>

datatype 'a res = Ret 'a | Panic

section \<open>Registration\<close>

text \<open>
  The idiom that opens \<open>add\<close>, \<open>Add\<close> and \<open>Call\<close>:
  \<^verbatim>\<open>val, ok := obj.(reflect.Value); if !ok { val = reflect.ValueOf(obj) }\<close>
\<close>

definition reflected :: "obj \<Rightarrow> rvalue" where
  "reflected x = (case x of OValue v \<Rightarrow> v | _ \<Rightarrow> ValueOf x)"

text \<open>\<open>Injector.add\<close>: the pair is the \<open>(reflect.Value, error)\<close> the source returns.\<close>

definition add :: "env \<Rightarrow> rtype \<Rightarrow> obj \<Rightarrow> Injector \<Rightarrow> (rvalue \<times> error option) res \<times> Injector" where
  "add E typ x i =
     (let val = reflected x in
      case Value_Type val of
        None \<Rightarrow> (Panic, i)
      | Some vt \<Rightarrow>
          if \<not> AssignableTo E vt typ
          then (Ret (ZeroValue,
                  Some (Errorf ''%#v %w %s'' [gosyntax E val, type_string E typ] ErrBadType)), i)
          else (case Objects i of
                  None \<Rightarrow> (Ret (val, None), i\<lparr>Objects := Some [typ \<mapsto> val]\<rparr>)
                | Some m \<Rightarrow>
                    (case m typ of
                       Some old \<Rightarrow>
                         (Ret (ZeroValue,
                            Some (Errorf ''type %s: %w'' [type_string E typ] ErrDuplicate)), i)
                     | None \<Rightarrow> (Ret (val, None), i\<lparr>Objects := Some (m(typ \<mapsto> val))\<rparr>))))"

text \<open>\<open>Injector.Add\<close>: the result is the error returned, \<open>None\<close> for nil.\<close>

definition Add :: "env \<Rightarrow> obj \<Rightarrow> Injector \<Rightarrow> error option res \<times> Injector" where
  "Add E x i =
     (if x = NilObj then (Ret (Some ErrNil), i)
      else
        let val = reflected x in
        case Value_Type val of
          None \<Rightarrow> (Panic, i)
        | Some vt \<Rightarrow>
            (case add E vt (OValue val) i of
               (Panic, i') \<Rightarrow> (Panic, i')
             | (Ret (v, Some err), i') \<Rightarrow> (Ret (Some err), i')
             | (Ret (v, None), i') \<Rightarrow> (Ret None, i')))"

text \<open>\<open>Injector.AddInterface\<close>. Calling \<open>Kind\<close> on the nil Type of a nil \<open>iface\<close> panics.\<close>

definition AddInterface :: "env \<Rightarrow> obj \<Rightarrow> obj \<Rightarrow> Injector \<Rightarrow> error option res \<times> Injector" where
  "AddInterface E iface x i =
     (if x = NilObj then (Ret (Some ErrNil), i)
      else
        case (case iface of
                OType t \<Rightarrow> Ret (Inr t)
              | _ \<Rightarrow>
                  (case TypeOf iface of
                     None \<Rightarrow> Panic
                   | Some t \<Rightarrow>
                       (case t of TPtr el \<Rightarrow> Ret (Inr el) | _ \<Rightarrow> Ret (Inl ErrBadInterface)))) of
          Panic \<Rightarrow> (Panic, i)
        | Ret (Inl err) \<Rightarrow> (Ret (Some err), i)
        | Ret (Inr typ) \<Rightarrow>
            if Kind typ \<noteq> Interface then (Ret (Some ErrBadInterface), i)
            else (case add E typ x i of
                    (Panic, i') \<Rightarrow> (Panic, i')
                  | (Ret (v, Some err), i') \<Rightarrow> (Ret (Some err), i')
                  | (Ret (v, None), i') \<Rightarrow> (Ret None, i')))"

text \<open>\<open>Injector.AddVivifier\<close>; \<open>viv = None\<close> is the nil Vivifier.\<close>

definition AddVivifier :: "env \<Rightarrow> obj \<Rightarrow> vivifier option \<Rightarrow> Injector \<Rightarrow> error option res \<times> Injector" where
  "AddVivifier E x viv i =
     (case viv of
        None \<Rightarrow> (Ret (Some ErrNil), i)
      | Some vv \<Rightarrow>
          (case (case x of
                   OType t \<Rightarrow> Some t
                 | _ \<Rightarrow>
                     (case TypeOf x of
                        None \<Rightarrow> None
                      | Some t \<Rightarrow>
                          (case t of
                             TPtr tmp \<Rightarrow> if Kind tmp = Interface then Some tmp else Some t
                           | _ \<Rightarrow> Some t))) of
             None \<Rightarrow> (Panic, i)
           | Some typ \<Rightarrow>
               (case Vivifiers i of
                  None \<Rightarrow> (Ret None, i\<lparr>Vivifiers := Some [typ \<mapsto> vv]\<rparr>)
                | Some m \<Rightarrow>
                    (case m typ of
                       Some old \<Rightarrow>
                         (Ret (Some (Errorf ''type %s: %w'' [type_string E typ] ErrDuplicate)), i)
                     | None \<Rightarrow> (Ret None, i\<lparr>Vivifiers := Some (m(typ \<mapsto> vv))\<rparr>)))))"

section \<open>Resolution\<close>

text \<open>
  \<open>Injector.Get\<close>. Running a vivifier is recorded in the trace; the value it returns is
  cached through \<open>add\<close>.
\<close>

definition Get :: "env \<Rightarrow> rtype \<Rightarrow> state \<Rightarrow> (rvalue \<times> error option) res \<times> state" where
  "Get E typ s =
     (case (case Objects (injector s) of None \<Rightarrow> None | Some m \<Rightarrow> m typ) of
        Some val \<Rightarrow> (Ret (val, None), s)
      | None \<Rightarrow>
          (case (case Vivifiers (injector s) of None \<Rightarrow> None | Some vm \<Rightarrow> vm typ) of
             Some viv \<Rightarrow>
               (let s1 = s\<lparr>trace := trace s @ [EVivify viv typ]\<rparr> in
                case vivify E viv (trace s) (injector s) typ of
                  None \<Rightarrow> (Panic, s1)
                | Some (x, Some err) \<Rightarrow> (Ret (ZeroValue, Some err), s1)
                | Some (x, None) \<Rightarrow>
                    (case add E typ x (injector s1) of (r, i') \<Rightarrow> (r, s1\<lparr>injector := i'\<rparr>)))
           | None \<Rightarrow>
               (case Fallback (injector s) of
                  Some viv \<Rightarrow>
                    (let s1 = s\<lparr>trace := trace s @ [EVivify viv typ]\<rparr> in
                     case vivify E viv (trace s) (injector s) typ of
                       None \<Rightarrow> (Panic, s1)
                     | Some (x, Some err) \<Rightarrow> (Ret (ZeroValue, Some err), s1)
                     | Some (x, None) \<Rightarrow>
                         (case add E typ x (injector s1) of (r, i') \<Rightarrow> (r, s1\<lparr>injector := i'\<rparr>)))
                | None \<Rightarrow>
                    (Ret (ZeroValue,
                       Some (Errorf ''%w %s'' [type_string E typ] ErrMissingValue)), s))))"

section \<open>Invocation\<close>

text \<open>
  The loop of \<open>CallMethod\<close> over the parameter types, \<open>values\<close> being the slice built so
  far: \<open>Inl\<close> the values for all parameters, \<open>Inr\<close> the error of the first \<open>Get\<close> that
  fails.
\<close>

fun inputs :: "env \<Rightarrow> rtype list \<Rightarrow> rvalue list \<Rightarrow> state \<Rightarrow> (rvalue list + error) res \<times> state" where
  "inputs E [] values s = (Ret (Inl values), s)"
| "inputs E (t # ts) values s =
     (case Get E t s of
        (Panic, s') \<Rightarrow> (Panic, s')
      | (Ret (val, Some err), s') \<Rightarrow> (Ret (Inr err), s')
      | (Ret (val, None), s') \<Rightarrow> inputs E ts (values @ [val]) s')"

text \<open>\<open>Injector.CallMethod\<close>: the result is the error returned, \<open>None\<close> for nil.\<close>

definition CallMethod :: "env \<Rightarrow> rvalue \<Rightarrow> state \<Rightarrow> error option res \<times> state" where
  "CallMethod E meth s =
     (case meth of
        ZeroValue \<Rightarrow> (Ret (Some ErrNoMethod), s)
      | Val mTyp f \<Rightarrow>
          if Kind mTyp \<noteq> Func then (Ret (Some ErrBadMethod), s)
          else if IsVariadic mTyp \<or> NumOut mTyp > 1 \<or>
                  (NumOut mTyp = 1 \<and> \<not> AssignableTo E (Outs mTyp ! 0) errType)
          then (Ret (Some ErrBadMethod), s)
          else
            (case inputs E (Ins mTyp) [] s of
               (Panic, s') \<Rightarrow> (Panic, s')
             | (Ret (Inr err), s') \<Rightarrow> (Ret (Some err), s')
             | (Ret (Inl values), s') \<Rightarrow>
                 (let s2 = s'\<lparr>trace := trace s' @ [ECall meth values]\<rparr> in
                  case call E meth (trace s') values of
                    None \<Rightarrow> (Panic, s2)
                  | Some result \<Rightarrow>
                      if length result > 0
                      then (case Value_Interface (result ! 0) of
                              Some (OErr e) \<Rightarrow> (Ret (Some e), s2)
                            | _ \<Rightarrow> (Panic, s2))
                      else (Ret None, s2))))"

text \<open>The shapes of target \<open>CallMethod\<close> lets through to parameter resolution: the negation
  of its two rejections with \<open>ErrBadMethod\<close>.\<close>

definition supported :: "env \<Rightarrow> rtype \<Rightarrow> bool" where
  "supported E mTyp =
     (Kind mTyp = Func \<and>
      \<not> (IsVariadic mTyp \<or> NumOut mTyp > 1 \<or>
         (NumOut mTyp = 1 \<and> \<not> AssignableTo E (Outs mTyp ! 0) errType)))"

section \<open>Reading a registry and a trace\<close>

text \<open>The value slot cached for a type, and the type-specific vivifier registered for it.\<close>

definition slot :: "Injector \<Rightarrow> rtype \<Rightarrow> rvalue option" where
  "slot i typ = (case Objects i of None \<Rightarrow> None | Some m \<Rightarrow> m typ)"

definition specific :: "Injector \<Rightarrow> rtype \<Rightarrow> vivifier option" where
  "specific i typ = (case Vivifiers i of None \<Rightarrow> None | Some vm \<Rightarrow> vm typ)"

text \<open>The vivifier \<open>Get\<close> consults for a type with no slot: the specific one, else the
  fallback.\<close>

definition consulted :: "Injector \<Rightarrow> rtype \<Rightarrow> vivifier option" where
  "consulted i typ = (case specific i typ of Some viv \<Rightarrow> Some viv | None \<Rightarrow> Fallback i)"

text \<open>How often a vivifier was run, and whether a target was called, in a trace.\<close>

fun is_call :: "event \<Rightarrow> bool" where
  "is_call (ECall meth values) = True"
| "is_call (EVivify viv typ) = False"

definition vivifications :: "vivifier \<Rightarrow> rtype \<Rightarrow> event list \<Rightarrow> nat" where
  "vivifications viv typ tr = length (filter (\<lambda>e. e = EVivify viv typ) tr)"

section \<open>The fixtures of the package's tests\<close>

definition intT :: rtype where "intT = TNamed ''int''"
definition stringT :: rtype where "stringT = TNamed ''string''"
definition iTrialInterface :: rtype where "iTrialInterface = TInterface ''iTrialInterface''"
definition trialInterface :: rtype where "trialInterface = TNamed ''trialInterface''"
definition errorString :: rtype where "errorString = TPtr (TNamed ''errors.errorString'')"

definition AnError :: error where
  "AnError = Foreign errorString ''assert.AnError general error for testing''"

fun type_name :: "rtype \<Rightarrow> string" where
  "type_name (TNamed n) = n"
| "type_name (TPtr t) = CHR ''*'' # type_name t"
| "type_name (TInterface n) = n"
| "type_name (TFunc ins variadic outs) = ''func''"

text \<open>Mock vivifiers: one returns a string, one \<open>(nil, nil)\<close>, one \<open>(nil, AnError)\<close>, one
  the int 12345, one a \<open>trialInterface\<close>.\<close>

definition vivString :: vivifier where "vivString = 1"
definition vivNil :: vivifier where "vivNil = 2"
definition vivErr :: vivifier where "vivErr = 3"
definition vivInt :: vivifier where "vivInt = 4"
definition vivTrial :: vivifier where "vivTrial = 5"

definition testVivify :: "vivifier \<Rightarrow> event list \<Rightarrow> Injector \<Rightarrow> rtype \<Rightarrow> (obj \<times> error option) option" where
  "testVivify viv tr i typ =
     (if viv = vivString then Some (Obj stringT (DString ''a string''), None)
      else if viv = vivNil then Some (NilObj, None)
      else if viv = vivErr then Some (NilObj, Some AnError)
      else if viv = vivInt then Some (Obj intT (DInt 12345), None)
      else if viv = vivTrial then Some (Obj trialInterface (DInt 0), None)
      else None)"

text \<open>Targets: function 1 returns nothing, function 2 returns a nil \<open>error\<close>, function 3
  returns \<open>AnError\<close>.\<close>

definition testCall :: "rvalue \<Rightarrow> event list \<Rightarrow> rvalue list \<Rightarrow> rvalue list option" where
  "testCall meth tr values =
     (case meth of
        Val t (Obj t' (DRef n)) \<Rightarrow>
          if n = 1 then Some []
          else if n = 2 then Some [Val errType NilObj]
          else if n = 3 then Some [Val errType (OErr AnError)]
          else None
      | _ \<Rightarrow> None)"

definition testEnv :: env where
  "testEnv = \<lparr>assignable = (\<lambda>v t. (v = trialInterface \<and> t = iTrialInterface) \<or>
                                  (v = errorString \<and> t = errType)),
               type_string = type_name,
               gosyntax = (\<lambda>v. ''?''),
               vivify = testVivify,
               call = testCall\<rparr>"

definition func :: "rtype list \<Rightarrow> rtype list \<Rightarrow> nat \<Rightarrow> rvalue" where
  "func ins outs n = Val (TFunc ins False outs) (Obj (TFunc ins False outs) (DRef n))"

definition emptyInjector :: Injector where
  "emptyInjector = \<lparr>Objects = None, Vivifiers = None, Fallback = None\<rparr>"

definition five :: rvalue where "five = Val intT (Obj intT (DInt 5))"
definition aString :: rvalue where "aString = Val stringT (Obj stringT (DString ''a string''))"

text \<open>Registries of the tests: a cached string beside vivifiers, a specific vivifier
  beside a fallback, a fallback alone.\<close>

definition regCached :: Injector where
  "regCached = \<lparr>Objects = Some [stringT \<mapsto> aString], Vivifiers = Some [stringT \<mapsto> vivInt],
                 Fallback = Some vivErr\<rparr>"

definition regSpecific :: Injector where
  "regSpecific = \<lparr>Objects = None, Vivifiers = Some [stringT \<mapsto> vivString],
                   Fallback = Some vivErr\<rparr>"

definition regFallback :: Injector where
  "regFallback = \<lparr>Objects = None, Vivifiers = None, Fallback = Some vivString\<rparr>"

definition regFailing :: Injector where
  "regFailing = \<lparr>Objects = None, Vivifiers = Some [stringT \<mapsto> vivErr], Fallback = None\<rparr>"

definition regMistyped :: Injector where
  "regMistyped = \<lparr>Objects = None, Vivifiers = Some [stringT \<mapsto> vivInt], Fallback = None\<rparr>"

text \<open>A registry that can vivify an int and nothing else, one that can vivify an int and
  an \<open>iTrialInterface\<close> but no string, and one that holds a \<open>trialInterface\<close> under
  \<open>iTrialInterface\<close>.\<close>

definition regNoString :: Injector where
  "regNoString = \<lparr>Objects = None,
                   Vivifiers = Some [intT \<mapsto> vivInt, iTrialInterface \<mapsto> vivTrial],
                   Fallback = None\<rparr>"

definition regIntOnly :: Injector where
  "regIntOnly = \<lparr>Objects = None, Vivifiers = Some [intT \<mapsto> vivInt], Fallback = None\<rparr>"

definition regTrial :: Injector where
  "regTrial = \<lparr>Objects = Some [iTrialInterface \<mapsto> Val trialInterface (Obj trialInterface (DInt 5))],
                Vivifiers = None, Fallback = None\<rparr>"

lemmas fixture_defs =
  testEnv_def testVivify_def testCall_def func_def emptyInjector_def five_def aString_def
  vivString_def vivNil_def vivErr_def vivInt_def intT_def stringT_def iTrialInterface_def
  trialInterface_def errorString_def AnError_def errType_def
  regCached_def regSpecific_def regFallback_def regFailing_def regMistyped_def
  regIntOnly_def regTrial_def regNoString_def vivTrial_def

section \<open>How \<open>add\<close> and \<open>Get\<close> behave\<close>

lemma errors_Is_refl [simp]: "errors_Is e e"
  by (cases e) simp_all



lemma add_fresh:
  "Value_Type (reflected x) = Some vt \<Longrightarrow> AssignableTo E vt t \<Longrightarrow> slot i t = None \<Longrightarrow>
   add E t x i =
     (Ret (reflected x, None),
      i\<lparr>Objects := Some ((case Objects i of None \<Rightarrow> Map.empty | Some m \<Rightarrow> m)(t \<mapsto> reflected x))\<rparr>)"
  by (auto simp: add_def slot_def Let_def split: option.splits)

lemma add_frame:
  "add E t x i = (r, i') \<Longrightarrow>
   (\<forall>u. u \<noteq> t \<longrightarrow> slot i' u = slot i u) \<and> Vivifiers i' = Vivifiers i \<and> Fallback i' = Fallback i"
  by (auto simp: add_def slot_def Let_def split: option.splits if_splits)

lemma slot_add_other:
  "u \<noteq> t \<Longrightarrow> slot (snd (add E t x i)) u = slot i u"
  using add_frame [of E t x i "fst (add E t x i)" "snd (add E t x i)"] by simp

lemma add_error_unchanged:
  "add E t x i = (Ret (v, Some err), i') \<Longrightarrow> i' = i"
  by (auto simp: add_def Let_def split: option.splits if_splits)

lemma slot_cached [simp]:
  "slot (i\<lparr>Objects := Some (m(t \<mapsto> v))\<rparr>) u = (if u = t then Some v else m u)"
  by (simp add: slot_def)

lemma specific_Objects [simp]: "specific (i\<lparr>Objects := ob\<rparr>) t = specific i t"
  by (simp add: specific_def)

lemma consulted_Objects [simp]: "consulted (i\<lparr>Objects := ob\<rparr>) t = consulted i t"
  by (simp add: consulted_def split: option.splits)

lemma Get_hit: "slot (injector s) t = Some val \<Longrightarrow> Get E t s = (Ret (val, None), s)"
  by (auto simp: Get_def slot_def split: option.splits)

lemma Get_miss:
  "slot (injector s) t = None \<Longrightarrow>
   Get E t s =
     (case consulted (injector s) t of
        None \<Rightarrow> (Ret (ZeroValue, Some (Errorf ''%w %s'' [type_string E t] ErrMissingValue)), s)
      | Some viv \<Rightarrow>
          (case vivify E viv (trace s) (injector s) t of
             None \<Rightarrow> (Panic, s\<lparr>trace := trace s @ [EVivify viv t]\<rparr>)
           | Some (x, Some err) \<Rightarrow>
               (Ret (ZeroValue, Some err), s\<lparr>trace := trace s @ [EVivify viv t]\<rparr>)
           | Some (x, None) \<Rightarrow>
               (fst (add E t x (injector s)),
                s\<lparr>trace := trace s @ [EVivify viv t],
                  injector := snd (add E t x (injector s))\<rparr>)))"
  by (auto simp: Get_def slot_def specific_def consulted_def Let_def
      split: option.splits prod.splits)

lemma Get_error_unchanged:
  "Get E t s = (Ret (v, Some err), s') \<Longrightarrow> injector s' = injector s"
  by (auto simp: Get_def Let_def split: option.splits if_splits prod.splits
      dest: add_error_unchanged)

lemma Get_frame:
  assumes "Get E t s = (r, s')"
  shows "(\<exists>evs. trace s' = trace s @ evs \<and> (\<forall>e\<in>set evs. \<exists>viv. e = EVivify viv t)) \<and>
         (\<forall>u. u \<noteq> t \<longrightarrow> slot (injector s') u = slot (injector s) u)"
proof (cases "slot (injector s) t")
  case (Some val)
  with assms show ?thesis by (simp add: Get_hit)
next
  case None
  show ?thesis
  proof (cases "consulted (injector s) t")
    case n: None
    with None assms show ?thesis by (simp add: Get_miss)
  next
    case (Some viv)
    with None assms show ?thesis
      by (auto simp: Get_miss slot_add_other split: option.splits prod.splits)
  qed
qed

section \<open>How the parameter loop behaves\<close>

lemma inputs_frame:
  "inputs E ts vals s = (r, s') \<Longrightarrow>
   (\<exists>evs. trace s' = trace s @ evs \<and> (\<forall>e\<in>set evs. \<exists>viv t. e = EVivify viv t \<and> t \<in> set ts)) \<and>
   (\<forall>t. t \<notin> set ts \<longrightarrow> slot (injector s') t = slot (injector s) t)"
proof (induction ts arbitrary: vals s)
  case Nil
  then show ?case by simp
next
  case (Cons t ts)
  obtain g s1 where g: "Get E t s = (g, s1)" by (cases "Get E t s")
  from Get_frame [OF g] obtain evs1 where
    e1: "trace s1 = trace s @ evs1" "\<forall>e\<in>set evs1. \<exists>viv. e = EVivify viv t"
    and f1: "\<forall>u. u \<noteq> t \<longrightarrow> slot (injector s1) u = slot (injector s) u" by blast
  show ?case
  proof (cases g)
    case Panic
    with Cons.prems g have "s' = s1" by simp
    with e1 f1 show ?thesis by auto
  next
    case (Ret p)
    obtain val eo where p: "p = (val, eo)" by (cases p)
    show ?thesis
    proof (cases eo)
      case (Some err)
      with Cons.prems g Ret p have "s' = s1" by simp
      with e1 f1 show ?thesis by auto
    next
      case None
      with Cons.prems g Ret p have "inputs E ts (vals @ [val]) s1 = (r, s')" by simp
      from Cons.IH [OF this] obtain evs2 where
        e2: "trace s' = trace s1 @ evs2"
          "\<forall>e\<in>set evs2. \<exists>viv u. e = EVivify viv u \<and> u \<in> set ts"
        and f2: "\<forall>u. u \<notin> set ts \<longrightarrow> slot (injector s') u = slot (injector s1) u" by blast
      have "trace s' = trace s @ (evs1 @ evs2)" using e1 e2 by simp
      moreover have "\<forall>e\<in>set (evs1 @ evs2). \<exists>viv u. e = EVivify viv u \<and> u \<in> set (t # ts)"
        using e1 e2 by auto
      moreover have "\<forall>u. u \<notin> set (t # ts) \<longrightarrow> slot (injector s') u = slot (injector s) u"
        using f1 f2 by auto
      ultimately show ?thesis by blast
    qed
  qed
qed

lemma inputs_append:
  "inputs E (xs @ ys) vals s =
     (case inputs E xs vals s of
        (Ret (Inl vs), s1) \<Rightarrow> inputs E ys vs s1
      | (Ret (Inr e), s1) \<Rightarrow> (Ret (Inr e), s1)
      | (Panic, s1) \<Rightarrow> (Panic, s1))"
  by (induction xs arbitrary: vals s)
    (auto split: prod.splits res.splits option.splits sum.splits)

lemma inputs_cached:
  "\<forall>t\<in>set ts. slot (injector s) t \<noteq> None \<Longrightarrow>
   inputs E ts vals s = (Ret (Inl (vals @ map (\<lambda>t. the (slot (injector s) t)) ts)), s)"
  by (induction ts arbitrary: vals) (auto simp: Get_hit)

lemma inputs_fails_at:
  assumes "k < length ins"
    and "inputs E (take k ins) [] s = (Ret (Inl vals), sk)"
    and "Get E (ins ! k) sk = (Ret (v, Some err), s')"
  shows "inputs E ins [] s = (Ret (Inr err), s')"
proof -
  have "ins = take k ins @ (ins ! k) # drop (Suc k) ins"
    using assms(1) by (simp add: id_take_nth_drop)
  then have "inputs E ins [] s = inputs E (take k ins @ (ins ! k) # drop (Suc k) ins) [] s"
    by simp
  also have "\<dots> = (Ret (Inr err), s')"
    using assms(2,3) by (simp add: inputs_append)
  finally show ?thesis .
qed

lemma CallMethod_supported:
  "supported E mTyp \<Longrightarrow>
   CallMethod E (Val mTyp f) s =
     (case inputs E (Ins mTyp) [] s of
        (Panic, s') \<Rightarrow> (Panic, s')
      | (Ret (Inr err), s') \<Rightarrow> (Ret (Some err), s')
      | (Ret (Inl values), s') \<Rightarrow>
          (case call E (Val mTyp f) (trace s') values of
             None \<Rightarrow> (Panic, s'\<lparr>trace := trace s' @ [ECall (Val mTyp f) values]\<rparr>)
           | Some result \<Rightarrow>
               (if length result > 0
                then (case Value_Interface (result ! 0) of
                        Some (OErr e) \<Rightarrow> Ret (Some e)
                      | _ \<Rightarrow> Panic)
                else Ret None,
                s'\<lparr>trace := trace s' @ [ECall (Val mTyp f) values]\<rparr>)))"
  by (auto simp: CallMethod_def supported_def Let_def
      split: prod.splits res.splits sum.splits option.splits obj.splits)

section \<open>The order of resolution\<close>

text \<open>
  C5. \<open>Get\<close> resolves a type in a fixed order. A cached slot is returned as it is, the
  state (registry and trace) unchanged, so no vivifier runs. With no slot and a
  type-specific vivifier, that vivifier is the one event added to the trace, whatever
  the fallback is. With neither, the fallback is. With none of the three, \<open>Get\<close> fails
  with an error wrapping \<open>ErrMissingValue\<close> and changes nothing.
\<close>

theorem Get_resolution_order:
  "(slot (injector s) t = Some val \<longrightarrow> Get E t s = (Ret (val, None), s)) \<and>
   (slot (injector s) t = None \<and> specific (injector s) t = Some viv \<longrightarrow>
      trace (snd (Get E t s)) = trace s @ [EVivify viv t]) \<and>
   (slot (injector s) t = None \<and> specific (injector s) t = None \<and>
    Fallback (injector s) = Some fb \<longrightarrow>
      trace (snd (Get E t s)) = trace s @ [EVivify fb t]) \<and>
   (slot (injector s) t = None \<and> specific (injector s) t = None \<and>
    Fallback (injector s) = None \<longrightarrow>
      Get E t s =
        (Ret (ZeroValue, Some (Errorf ''%w %s'' [type_string E t] ErrMissingValue)), s) \<and>
      errors_Is (Errorf ''%w %s'' [type_string E t] ErrMissingValue) ErrMissingValue)"
proof (intro conjI impI)
  assume "slot (injector s) t = Some val"
  then show "Get E t s = (Ret (val, None), s)" by (rule Get_hit)
next
  assume a: "slot (injector s) t = None \<and> specific (injector s) t = Some viv"
  then have "consulted (injector s) t = Some viv" by (simp add: consulted_def)
  with a show "trace (snd (Get E t s)) = trace s @ [EVivify viv t]"
    by (simp add: Get_miss split: option.splits prod.splits)
next
  assume a: "slot (injector s) t = None \<and> specific (injector s) t = None \<and>
    Fallback (injector s) = Some fb"
  then have "consulted (injector s) t = Some fb" by (simp add: consulted_def)
  with a show "trace (snd (Get E t s)) = trace s @ [EVivify fb t]"
    by (simp add: Get_miss split: option.splits prod.splits)
next
  assume a: "slot (injector s) t = None \<and> specific (injector s) t = None \<and>
    Fallback (injector s) = None"
  then have "consulted (injector s) t = None" by (simp add: consulted_def)
  with a show "Get E t s =
        (Ret (ZeroValue, Some (Errorf ''%w %s'' [type_string E t] ErrMissingValue)), s)"
    by (simp add: Get_miss)
next
  show "errors_Is (Errorf ''%w %s'' [type_string E t] ErrMissingValue) ErrMissingValue"
    by simp
qed

text \<open>The four cases at the registries of the tests.\<close>

theorem Get_resolution_order_witness:
  "Get testEnv stringT \<lparr>injector = regCached, trace = []\<rparr> =
     (Ret (aString, None), \<lparr>injector = regCached, trace = []\<rparr>) \<and>
   trace (snd (Get testEnv stringT \<lparr>injector = regSpecific, trace = []\<rparr>)) =
     [EVivify vivString stringT] \<and>
   trace (snd (Get testEnv stringT \<lparr>injector = regFallback, trace = []\<rparr>)) =
     [EVivify vivString stringT] \<and>
   Get testEnv stringT \<lparr>injector = emptyInjector, trace = []\<rparr> =
     (Ret (ZeroValue, Some (Errorf ''%w %s'' [''string''] ErrMissingValue)),
      \<lparr>injector = emptyInjector, trace = []\<rparr>)"
proof -
  have a: "slot regCached stringT = Some aString"
    by (simp add: slot_def regCached_def)
  have b: "slot regSpecific stringT = None \<and> specific regSpecific stringT = Some vivString"
    by (simp add: slot_def specific_def regSpecific_def)
  have c: "slot regFallback stringT = None \<and> specific regFallback stringT = None \<and>
           Fallback regFallback = Some vivString"
    by (simp add: slot_def specific_def regFallback_def)
  have d: "slot emptyInjector stringT = None \<and> specific emptyInjector stringT = None \<and>
           Fallback emptyInjector = None"
    by (simp add: slot_def specific_def emptyInjector_def)
  have n: "type_string testEnv stringT = ''string''"
    by (simp add: testEnv_def stringT_def)
  show ?thesis
    using a b c d n
      Get_resolution_order [where s = "\<lparr>injector = regCached, trace = []\<rparr>" and t = stringT
        and val = aString and E = testEnv]
      Get_resolution_order [where s = "\<lparr>injector = regSpecific, trace = []\<rparr>" and t = stringT
        and viv = vivString and E = testEnv]
      Get_resolution_order [where s = "\<lparr>injector = regFallback, trace = []\<rparr>" and t = stringT
        and fb = vivString and E = testEnv]
      Get_resolution_order [where s = "\<lparr>injector = emptyInjector, trace = []\<rparr>" and t = stringT
        and E = testEnv]
    by simp
qed

section \<open>Memoization, and failures that are not memoized\<close>

text \<open>
  C6, as the code has it. Let the vivifier \<open>Get\<close> consults for a type (the specific one,
  else the fallback) return, with a nil error, a valid value whose type is assignable to
  the requested type. Then \<open>Get\<close> succeeds and the value it returns is the slot of the
  type afterwards; a second \<open>Get\<close> on the resulting state returns the identical value and
  changes nothing, not even the trace; and over both calls the vivifier has run at most
  once. Where a slot was cached already, it is the value returned and the state is
  untouched; where none was, the value is the vivified one, the vivifier ran once and the
  only change to the registry is the new slot.
\<close>

theorem Get_twice:
  assumes "consulted (injector s) t = Some viv"
    and "vivify E viv (trace s) (injector s) t = Some (x, None)"
    and "Value_Type (reflected x) = Some vt"
    and "AssignableTo E vt t"
  shows "\<exists>val s1. Get E t s = (Ret (val, None), s1) \<and>
           slot (injector s1) t = Some val \<and>
           Get E t s1 = (Ret (val, None), s1) \<and>
           vivifications viv t (trace s1) \<le> Suc (vivifications viv t (trace s)) \<and>
           (\<forall>old. slot (injector s) t = Some old \<longrightarrow> val = old \<and> s1 = s) \<and>
           (slot (injector s) t = None \<longrightarrow>
              val = reflected x \<and>
              s1 = s\<lparr>trace := trace s @ [EVivify viv t],
                     injector := (injector s)\<lparr>Objects :=
                       Some ((case Objects (injector s) of None \<Rightarrow> Map.empty | Some m \<Rightarrow> m)
                             (t \<mapsto> reflected x))\<rparr>\<rparr>)"
proof (cases "slot (injector s) t")
  case (Some val)
  then have "Get E t s = (Ret (val, None), s)" by (rule Get_hit)
  with Some show ?thesis by auto
next
  case None
  let ?i1 = "(injector s)\<lparr>Objects :=
      Some ((case Objects (injector s) of None \<Rightarrow> Map.empty | Some m \<Rightarrow> m)(t \<mapsto> reflected x))\<rparr>"
  let ?s1 = "s\<lparr>trace := trace s @ [EVivify viv t], injector := ?i1\<rparr>"
  have g: "Get E t s = (Ret (reflected x, None), ?s1)"
    using assms None by (simp add: Get_miss add_fresh)
  have c: "slot (injector ?s1) t = Some (reflected x)" by simp
  then have h: "Get E t ?s1 = (Ret (reflected x, None), ?s1)" by (rule Get_hit)
  have v: "vivifications viv t (trace ?s1) \<le> Suc (vivifications viv t (trace s))"
    by (simp add: vivifications_def)
  show ?thesis
  proof (intro exI conjI)
    show "Get E t s = (Ret (reflected x, None), ?s1)" by (rule g)
    show "slot (injector ?s1) t = Some (reflected x)" by (rule c)
    show "Get E t ?s1 = (Ret (reflected x, None), ?s1)" by (rule h)
    show "vivifications viv t (trace ?s1) \<le> Suc (vivifications viv t (trace s))" by (rule v)
    show "\<forall>old. slot (injector s) t = Some old \<longrightarrow> reflected x = old \<and> ?s1 = s"
      using None by simp
    show "slot (injector s) t = None \<longrightarrow> reflected x = reflected x \<and> ?s1 = ?s1" by simp
  qed
qed

text \<open>The test \<open>TestInjectorGetVivifyBase\<close>, followed by a second \<open>Get\<close>.\<close>

theorem Get_twice_witness:
  "Get testEnv stringT \<lparr>injector = regSpecific, trace = []\<rparr> =
     (Ret (aString, None),
      \<lparr>injector = regSpecific\<lparr>Objects := Some [stringT \<mapsto> aString]\<rparr>,
       trace = [EVivify vivString stringT]\<rparr>) \<and>
   slot (regSpecific\<lparr>Objects := Some [stringT \<mapsto> aString]\<rparr>) stringT = Some aString \<and>
   Get testEnv stringT
     \<lparr>injector = regSpecific\<lparr>Objects := Some [stringT \<mapsto> aString]\<rparr>,
      trace = [EVivify vivString stringT]\<rparr> =
     (Ret (aString, None),
      \<lparr>injector = regSpecific\<lparr>Objects := Some [stringT \<mapsto> aString]\<rparr>,
       trace = [EVivify vivString stringT]\<rparr>) \<and>
   vivifications vivString stringT [EVivify vivString stringT] \<le> Suc 0"
proof -
  let ?s = "\<lparr>injector = regSpecific, trace = []\<rparr>"
  have a: "consulted (injector ?s) stringT = Some vivString"
    by (simp add: consulted_def specific_def regSpecific_def)
  have b: "vivify testEnv vivString (trace ?s) (injector ?s) stringT =
           Some (Obj stringT (DString ''a string''), None)"
    by (simp add: testEnv_def testVivify_def)
  have c: "Value_Type (reflected (Obj stringT (DString ''a string''))) = Some stringT"
    by (simp add: reflected_def ValueOf_def)
  have d: "AssignableTo testEnv stringT stringT"
    by (simp add: AssignableTo_def)
  have e: "slot (injector ?s) stringT = None"
    by (simp add: slot_def regSpecific_def)
  have f: "reflected (Obj stringT (DString ''a string'')) = aString"
    by (simp add: reflected_def ValueOf_def aString_def)
  have g: "Objects regSpecific = None" "vivifications vivString stringT [] = 0"
    by (simp_all add: regSpecific_def vivifications_def)
  from Get_twice [OF a b c d] e f g show ?thesis by auto
qed

text \<open>A vivifier that returns the int 12345, with a nil error, when asked for a string:
  \<open>Get\<close> fails both times and runs the vivifier both times.\<close>

theorem Get_twice_counterexample:
  "vivify testEnv vivInt [] regMistyped stringT = Some (Obj intT (DInt 12345), None) \<and>
   Get testEnv stringT \<lparr>injector = regMistyped, trace = []\<rparr> =
     (Ret (ZeroValue, Some (Errorf ''%#v %w %s'' [''?'', ''string''] ErrBadType)),
      \<lparr>injector = regMistyped, trace = [EVivify vivInt stringT]\<rparr>) \<and>
   Get testEnv stringT \<lparr>injector = regMistyped, trace = [EVivify vivInt stringT]\<rparr> =
     (Ret (ZeroValue, Some (Errorf ''%#v %w %s'' [''?'', ''string''] ErrBadType)),
      \<lparr>injector = regMistyped, trace = [EVivify vivInt stringT, EVivify vivInt stringT]\<rparr>) \<and>
   vivifications vivInt stringT [EVivify vivInt stringT, EVivify vivInt stringT] = 2"
  by (simp add: Get_def add_def Let_def reflected_def ValueOf_def AssignableTo_def
      vivifications_def fixture_defs)

text \<open>
  C7. Let a type have no slot and let the vivifier \<open>Get\<close> consults for it (the specific
  one, else the fallback) return an error. Then \<open>Get\<close> returns exactly that error beside
  the zero Value, the registry is what it was, without a slot for the type, and a second
  \<open>Get\<close> runs the vivifier again.
\<close>

theorem Get_vivifier_error:
  assumes "slot (injector s) t = None"
    and "consulted (injector s) t = Some viv"
    and "vivify E viv (trace s) (injector s) t = Some (x, Some err)"
  shows "Get E t s = (Ret (ZeroValue, Some err), s\<lparr>trace := trace s @ [EVivify viv t]\<rparr>) \<and>
         injector (snd (Get E t s)) = injector s \<and>
         slot (injector (snd (Get E t s))) t = None \<and>
         trace (snd (Get E t (snd (Get E t s)))) = trace s @ [EVivify viv t, EVivify viv t]"
proof -
  let ?s1 = "s\<lparr>trace := trace s @ [EVivify viv t]\<rparr>"
  have g: "Get E t s = (Ret (ZeroValue, Some err), ?s1)"
    using assms by (simp add: Get_miss)
  have "slot (injector ?s1) t = None" "consulted (injector ?s1) t = Some viv"
    using assms by simp_all
  then have "trace (snd (Get E t ?s1)) = trace ?s1 @ [EVivify viv t]"
    by (simp add: Get_miss split: option.splits prod.splits)
  with g assms(1) show ?thesis by simp
qed

theorem Get_vivifier_error_witness:
  "Get testEnv stringT \<lparr>injector = regFailing, trace = []\<rparr> =
     (Ret (ZeroValue, Some AnError), \<lparr>injector = regFailing, trace = [EVivify vivErr stringT]\<rparr>) \<and>
   trace (snd (Get testEnv stringT (snd (Get testEnv stringT \<lparr>injector = regFailing, trace = []\<rparr>)))) =
     [EVivify vivErr stringT, EVivify vivErr stringT]"
proof -
  have a: "slot (injector \<lparr>injector = regFailing, trace = []\<rparr>) stringT = None"
    by (simp add: slot_def regFailing_def)
  have b: "consulted (injector \<lparr>injector = regFailing, trace = []\<rparr>) stringT = Some vivErr"
    by (simp add: consulted_def specific_def regFailing_def)
  have c: "vivify testEnv vivErr (trace \<lparr>injector = regFailing, trace = []\<rparr>)
             (injector \<lparr>injector = regFailing, trace = []\<rparr>) stringT = Some (NilObj, Some AnError)"
    by (simp add: testEnv_def testVivify_def vivErr_def vivString_def vivNil_def)
  show ?thesis using Get_vivifier_error [OF a b c] by auto
qed



section \<open>All or nothing\<close>

text \<open>
  C8, as the code has it. Take a target that passes validation and let the parameters
  before the \<open>k\<close>-th resolve and \<open>Get\<close> fail for the \<open>k\<close>-th (counted from 0). Then
  \<open>CallMethod\<close> returns that error and ends in the state the failing \<open>Get\<close> left. What
  it added to the trace are vivifications for the types of the parameters up to the
  \<open>k\<close>-th, never a call of the target, and the slot of every type that is not the type
  of an earlier parameter is what it was before the call. So a later parameter has a new
  slot only where its type is also the type of an earlier parameter.
\<close>

theorem CallMethod_first_failure:
  assumes "supported E mTyp"
    and "k < length (Ins mTyp)"
    and "inputs E (take k (Ins mTyp)) [] s = (Ret (Inl vals), sk)"
    and "Get E (Ins mTyp ! k) sk = (Ret (v, Some err), s')"
  shows "CallMethod E (Val mTyp f) s = (Ret (Some err), s') \<and>
         (\<exists>evs. trace s' = trace s @ evs \<and>
            (\<forall>e\<in>set evs. \<not> is_call e \<and>
               (\<exists>viv t. e = EVivify viv t \<and> t \<in> set (take (Suc k) (Ins mTyp))))) \<and>
         (\<forall>t. t \<notin> set (take k (Ins mTyp)) \<longrightarrow> slot (injector s') t = slot (injector s) t)"
proof -
  have i: "inputs E (Ins mTyp) [] s = (Ret (Inr err), s')"
    using assms(2-4) by (rule inputs_fails_at)
  then have c: "CallMethod E (Val mTyp f) s = (Ret (Some err), s')"
    using assms(1) by (simp add: CallMethod_supported)
  from inputs_frame [OF assms(3)] obtain evs1 where
    e1: "trace sk = trace s @ evs1"
      "\<forall>e\<in>set evs1. \<exists>viv t. e = EVivify viv t \<and> t \<in> set (take k (Ins mTyp))"
    and f1: "\<forall>t. t \<notin> set (take k (Ins mTyp)) \<longrightarrow> slot (injector sk) t = slot (injector s) t"
    by blast
  from Get_frame [OF assms(4)] obtain evs2 where
    e2: "trace s' = trace sk @ evs2" "\<forall>e\<in>set evs2. \<exists>viv. e = EVivify viv (Ins mTyp ! k)"
    by blast
  have inj: "injector s' = injector sk"
    using assms(4) by (rule Get_error_unchanged)
  have tk: "take (Suc k) (Ins mTyp) = take k (Ins mTyp) @ [Ins mTyp ! k]"
    using assms(2) by (simp add: take_Suc_conv_app_nth)
  have "trace s' = trace s @ (evs1 @ evs2)" using e1 e2 by simp
  moreover have "\<forall>e\<in>set (evs1 @ evs2). \<not> is_call e \<and>
      (\<exists>viv t. e = EVivify viv t \<and> t \<in> set (take (Suc k) (Ins mTyp)))"
    using e1(2) e2(2) tk by auto
  ultimately have ev: "\<exists>evs. trace s' = trace s @ evs \<and>
      (\<forall>e\<in>set evs. \<not> is_call e \<and>
         (\<exists>viv t. e = EVivify viv t \<and> t \<in> set (take (Suc k) (Ins mTyp))))"
    by blast
  from c ev f1 inj show ?thesis by simp
qed

text \<open>A target \<open>func(i int, s string, t iTrialInterface)\<close> on a registry that can vivify
  the int and the \<open>iTrialInterface\<close> and has no string: the int is cached, the string
  fails, and the \<open>iTrialInterface\<close> after it is never vivified.\<close>

theorem CallMethod_first_failure_witness:
  "CallMethod testEnv (func [intT, stringT, iTrialInterface] [] 1)
     \<lparr>injector = regNoString, trace = []\<rparr> =
     (Ret (Some (Errorf ''%w %s'' [''string''] ErrMissingValue)),
      \<lparr>injector = regNoString\<lparr>Objects := Some [intT \<mapsto> Val intT (Obj intT (DInt 12345))]\<rparr>,
       trace = [EVivify vivInt intT]\<rparr>) \<and>
   specific regNoString iTrialInterface = Some vivTrial \<and>
   slot regNoString iTrialInterface = None \<and>
   slot (regNoString\<lparr>Objects := Some [intT \<mapsto> Val intT (Obj intT (DInt 12345))]\<rparr>)
     iTrialInterface = slot regNoString iTrialInterface"
proof -
  let ?m = "TFunc [intT, stringT, iTrialInterface] False []"
  let ?s = "\<lparr>injector = regNoString, trace = []\<rparr>"
  let ?sk = "\<lparr>injector = regNoString\<lparr>Objects := Some [intT \<mapsto> Val intT (Obj intT (DInt 12345))]\<rparr>,
              trace = [EVivify vivInt intT]\<rparr>"
  have a: "supported testEnv ?m"
    by (simp add: supported_def NumOut_def)
  have b: "Suc 0 < length (Ins ?m)" by simp
  have c: "inputs testEnv (take (Suc 0) (Ins ?m)) [] ?s =
             (Ret (Inl [Val intT (Obj intT (DInt 12345))]), ?sk)"
    by (simp add: Get_def add_def Let_def reflected_def ValueOf_def AssignableTo_def
        fixture_defs)
  have d: "Get testEnv (Ins ?m ! Suc 0) ?sk =
             (Ret (ZeroValue, Some (Errorf ''%w %s'' [''string''] ErrMissingValue)), ?sk)"
    by (simp add: Get_def fixture_defs)
  have e: "iTrialInterface \<notin> set (take (Suc 0) (Ins ?m))"
    by (simp add: intT_def iTrialInterface_def)
  have f: "specific regNoString iTrialInterface = Some vivTrial"
    "slot regNoString iTrialInterface = None"
    by (simp_all add: specific_def slot_def regNoString_def intT_def iTrialInterface_def)
  from CallMethod_first_failure [OF a b c d, of "Obj ?m (DRef 1)"] e f
  show ?thesis by (auto simp: func_def)
qed

text \<open>A target \<open>func(a int, s string, b int)\<close> on a registry that can vivify an int and
  has no string: the string fails, and the type of the parameter after it has a slot that
  was not there before the call, cached for the first parameter.\<close>

theorem CallMethod_first_failure_counterexample:
  "CallMethod testEnv (func [intT, stringT, intT] [] 1) \<lparr>injector = regIntOnly, trace = []\<rparr> =
     (Ret (Some (Errorf ''%w %s'' [''string''] ErrMissingValue)),
      \<lparr>injector = regIntOnly\<lparr>Objects := Some [intT \<mapsto> Val intT (Obj intT (DInt 12345))]\<rparr>,
       trace = [EVivify vivInt intT]\<rparr>) \<and>
   [intT, stringT, intT] ! 2 = intT \<and>
   slot regIntOnly intT = None \<and>
   slot (regIntOnly\<lparr>Objects := Some [intT \<mapsto> Val intT (Obj intT (DInt 12345))]\<rparr>) intT =
     Some (Val intT (Obj intT (DInt 12345)))"
  by (simp add: CallMethod_def NumOut_def AssignableTo_def Get_def add_def Let_def
      reflected_def ValueOf_def slot_def fixture_defs)

section \<open>What validation does not look at\<close>

text \<open>
  C1, as the code has it. \<open>CallMethod\<close> never compares the parameter types of a target
  with one another. For a target that passes validation and whose parameter types,
  repeated or not, all have a cached slot, it calls the target, with the slot of each
  parameter's type in declared order: a type that occurs twice gets the same value twice.
\<close>

theorem CallMethod_repeated_types:
  assumes "supported E mTyp"
    and "\<forall>t\<in>set (Ins mTyp). slot (injector s) t \<noteq> None"
  shows "\<exists>r. CallMethod E (Val mTyp f) s =
           (r, s\<lparr>trace := trace s @
                  [ECall (Val mTyp f) (map (\<lambda>t. the (slot (injector s) t)) (Ins mTyp))]\<rparr>)"
  using assms by (simp add: CallMethod_supported inputs_cached split: option.splits)

text \<open>A target \<open>func(a int, b int)\<close> on a registry that holds the int 5: it is not
  rejected with \<open>ErrBadMethod\<close>, it is called with 5 and 5 and \<open>CallMethod\<close> returns nil.\<close>

theorem CallMethod_repeated_types_counterexample:
  "CallMethod testEnv (func [intT, intT] [] 1)
     \<lparr>injector = emptyInjector\<lparr>Objects := Some [intT \<mapsto> five]\<rparr>, trace = []\<rparr> =
   (Ret None,
    \<lparr>injector = emptyInjector\<lparr>Objects := Some [intT \<mapsto> five]\<rparr>,
     trace = [ECall (func [intT, intT] [] 1) [five, five]]\<rparr>)"
  by (simp add: CallMethod_def NumOut_def AssignableTo_def Get_def fixture_defs)

theorem CallMethod_repeated_types_witness:
  "\<exists>r. CallMethod testEnv (func [intT, intT] [] 1)
          \<lparr>injector = emptyInjector\<lparr>Objects := Some [intT \<mapsto> five]\<rparr>, trace = []\<rparr> =
        (r, \<lparr>injector = emptyInjector\<lparr>Objects := Some [intT \<mapsto> five]\<rparr>,
             trace = [ECall (func [intT, intT] [] 1) [five, five]]\<rparr>)"
proof -
  let ?s = "\<lparr>injector = emptyInjector\<lparr>Objects := Some [intT \<mapsto> five]\<rparr>, trace = []\<rparr>"
  have a: "supported testEnv (TFunc [intT, intT] False [])"
    by (simp add: supported_def NumOut_def)
  have b: "\<forall>t\<in>set (Ins (TFunc [intT, intT] False [])). slot (injector ?s) t \<noteq> None"
    by (simp add: slot_def)
  from CallMethod_repeated_types [OF a b, of "Obj (TFunc [intT, intT] False []) (DRef 1)"]
  show ?thesis by (simp add: func_def slot_def)
qed

section \<open>Duplicate registration\<close>


lemma reflected_OValue [simp]: "reflected (OValue v) = v"
  by (simp add: reflected_def)

lemma AssignableTo_refl [simp]: "AssignableTo E t t"
  by (simp add: AssignableTo_def)






section \<open>Where a vivifier is indexed\<close>

lemma specific_Vivifiers [simp]:
  "specific (i\<lparr>Vivifiers := Some (m(t \<mapsto> v))\<rparr>) u = (if u = t then Some v else m u)"
  by (simp add: specific_def)

lemma slot_Vivifiers [simp]: "slot (i\<lparr>Vivifiers := vm\<rparr>) t = slot i t"
  by (simp add: slot_def)

lemma AddVivifier_type:
  assumes "specific i t = None"
  shows "AddVivifier E (OType t) (Some viv) i =
           (Ret None,
            i\<lparr>Vivifiers := Some ((case Vivifiers i of None \<Rightarrow> Map.empty | Some m \<Rightarrow> m)(t \<mapsto> viv))\<rparr>)"
  using assms by (auto simp: AddVivifier_def specific_def split: option.splits)

lemma AddVivifier_pointer:
  assumes "TypeOf x = Some (TPtr t)" and "Kind t = Interface" and "specific i t = None"
  shows "AddVivifier E x (Some viv) i =
           (Ret None,
            i\<lparr>Vivifiers := Some ((case Vivifiers i of None \<Rightarrow> Map.empty | Some m \<Rightarrow> m)(t \<mapsto> viv))\<rparr>)"
proof (cases x)
  case (OType u)
  with assms(1,2) show ?thesis by auto
qed (use assms in \<open>auto simp: AddVivifier_def specific_def split: option.splits\<close>)

text \<open>
  C4, as the code has it. A token that is a value whose type is a pointer to an interface
  type is resolved to the interface type: the vivifier is indexed under it, and a \<open>Get\<close>
  for the interface type that finds no slot runs that vivifier. A token that is a
  \<open>reflect.Type\<close> is the index as it is, pointer or not, and no other type gets the
  vivifier.
\<close>

theorem AddVivifier_index:
  "(TypeOf x = Some (TPtr t) \<and> Kind t = Interface \<and> specific i t = None \<longrightarrow>
      (\<exists>i'. AddVivifier E x (Some viv) i = (Ret None, i') \<and> specific i' t = Some viv \<and>
         (slot i t = None \<longrightarrow>
            trace (snd (Get E t \<lparr>injector = i', trace = tr\<rparr>)) = tr @ [EVivify viv t]))) \<and>
   (specific i t = None \<longrightarrow>
      (\<exists>i'. AddVivifier E (OType t) (Some viv) i = (Ret None, i') \<and> specific i' t = Some viv \<and>
         (\<forall>u. u \<noteq> t \<longrightarrow> specific i' u = specific i u)))"
proof (intro conjI impI)
  assume a: "TypeOf x = Some (TPtr t) \<and> Kind t = Interface \<and> specific i t = None"
  let ?i' = "i\<lparr>Vivifiers := Some ((case Vivifiers i of None \<Rightarrow> Map.empty | Some m \<Rightarrow> m)(t \<mapsto> viv))\<rparr>"
  have r: "AddVivifier E x (Some viv) i = (Ret None, ?i')"
    using a by (intro AddVivifier_pointer) simp_all
  have s: "specific ?i' t = Some viv" by simp
  have h: "slot i t = None \<longrightarrow>
      trace (snd (Get E t \<lparr>injector = ?i', trace = tr\<rparr>)) = tr @ [EVivify viv t]"
    using s by (simp add: Get_miss consulted_def split: option.splits prod.splits)
  show "\<exists>i'. AddVivifier E x (Some viv) i = (Ret None, i') \<and> specific i' t = Some viv \<and>
         (slot i t = None \<longrightarrow>
            trace (snd (Get E t \<lparr>injector = i', trace = tr\<rparr>)) = tr @ [EVivify viv t])"
  proof (intro exI conjI)
    show "AddVivifier E x (Some viv) i = (Ret None, ?i')" by (rule r)
    show "specific ?i' t = Some viv" by (rule s)
    show "slot i t = None \<longrightarrow>
      trace (snd (Get E t \<lparr>injector = ?i', trace = tr\<rparr>)) = tr @ [EVivify viv t]" by (rule h)
  qed
next
  assume a: "specific i t = None"
  let ?i' = "i\<lparr>Vivifiers := Some ((case Vivifiers i of None \<Rightarrow> Map.empty | Some m \<Rightarrow> m)(t \<mapsto> viv))\<rparr>"
  have r: "AddVivifier E (OType t) (Some viv) i = (Ret None, ?i')"
    using a by (rule AddVivifier_type)
  have o: "\<forall>u. u \<noteq> t \<longrightarrow> specific ?i' u = specific i u"
    by (simp add: specific_def split: option.splits)
  show "\<exists>i'. AddVivifier E (OType t) (Some viv) i = (Ret None, i') \<and>
      specific i' t = Some viv \<and> (\<forall>u. u \<noteq> t \<longrightarrow> specific i' u = specific i u)"
  proof (intro exI conjI)
    show "AddVivifier E (OType t) (Some viv) i = (Ret None, ?i')" by (rule r)
    show "specific ?i' t = Some viv" by simp
    show "\<forall>u. u \<noteq> t \<longrightarrow> specific ?i' u = specific i u" by (rule o)
  qed
qed

text \<open>The test \<open>TestInjectorAddVivifierInterfaceType\<close>: the token is the \<open>reflect.Type\<close> of
  \<open>*iTrialInterface\<close>. The vivifier is indexed under the pointer type, and a \<open>Get\<close> for
  \<open>iTrialInterface\<close> finds nothing and runs nothing.\<close>

theorem AddVivifier_index_counterexample:
  "AddVivifier testEnv (OType (TPtr iTrialInterface)) (Some vivString) emptyInjector =
     (Ret None, emptyInjector\<lparr>Vivifiers := Some [TPtr iTrialInterface \<mapsto> vivString]\<rparr>) \<and>
   Get testEnv iTrialInterface
     \<lparr>injector = emptyInjector\<lparr>Vivifiers := Some [TPtr iTrialInterface \<mapsto> vivString]\<rparr>,
      trace = []\<rparr> =
     (Ret (ZeroValue, Some (Errorf ''%w %s'' [''iTrialInterface''] ErrMissingValue)),
      \<lparr>injector = emptyInjector\<lparr>Vivifiers := Some [TPtr iTrialInterface \<mapsto> vivString]\<rparr>,
       trace = []\<rparr>)"
  by (simp add: AddVivifier_def Get_def fixture_defs)

text \<open>The tests \<open>TestInjectorAddVivifierInterface\<close> and
  \<open>TestInjectorAddVivifierInterfaceType\<close>.\<close>

theorem AddVivifier_index_witness:
  "(\<exists>i'. AddVivifier testEnv (Obj (TPtr iTrialInterface) (DRef 0)) (Some vivString) emptyInjector =
           (Ret None, i') \<and> specific i' iTrialInterface = Some vivString \<and>
         trace (snd (Get testEnv iTrialInterface \<lparr>injector = i', trace = []\<rparr>)) =
           [EVivify vivString iTrialInterface]) \<and>
   (\<exists>i'. AddVivifier testEnv (OType (TPtr iTrialInterface)) (Some vivString) emptyInjector =
           (Ret None, i') \<and> specific i' (TPtr iTrialInterface) = Some vivString \<and>
         specific i' iTrialInterface = specific emptyInjector iTrialInterface)"
proof -
  have a: "TypeOf (Obj (TPtr iTrialInterface) (DRef 0)) = Some (TPtr iTrialInterface) \<and>
           Kind iTrialInterface = Interface \<and> specific emptyInjector iTrialInterface = None"
    by (simp add: specific_def emptyInjector_def iTrialInterface_def)
  have b: "slot emptyInjector iTrialInterface = None"
    by (simp add: slot_def emptyInjector_def)
  have c: "specific emptyInjector (TPtr iTrialInterface) = None"
    by (simp add: specific_def emptyInjector_def)
  have d: "iTrialInterface \<noteq> TPtr iTrialInterface"
    by (simp add: iTrialInterface_def)
  show ?thesis
    using a b c d
      AddVivifier_index [where x = "Obj (TPtr iTrialInterface) (DRef 0)" and t = iTrialInterface
        and i = emptyInjector and E = testEnv and viv = vivString and tr = "[]"]
      AddVivifier_index [where t = "TPtr iTrialInterface" and i = emptyInjector and E = testEnv
        and viv = vivString]
    by auto
qed

section \<open>Where the code panics\<close>

text \<open>A nil handed to \<open>Add\<close> or \<open>AddInterface\<close> is refused with \<open>ErrNil\<close>, the registry
  untouched.\<close>

lemma Add_nil: "Add E NilObj i = (Ret (Some ErrNil), i)"
  by (simp add: Add_def)

lemma AddInterface_nil: "AddInterface E iface NilObj i = (Ret (Some ErrNil), i)"
  by (simp add: AddInterface_def)

text \<open>What \<open>CallMethod\<close> makes of the first result of a target whose parameters all
  resolve: an error is returned as it is, a nil interface is a panic.\<close>

lemma CallMethod_returns_error:
  assumes "supported E mTyp"
    and "inputs E (Ins mTyp) [] s = (Ret (Inl values), s')"
    and "call E (Val mTyp f) (trace s') values = Some (Val t (OErr e) # rest)"
  shows "CallMethod E (Val mTyp f) s =
           (Ret (Some e), s'\<lparr>trace := trace s' @ [ECall (Val mTyp f) values]\<rparr>)"
  using assms by (simp add: CallMethod_supported)

lemma CallMethod_nil_result:
  assumes "supported E mTyp"
    and "inputs E (Ins mTyp) [] s = (Ret (Inl values), s')"
    and "call E (Val mTyp f) (trace s') values = Some (Val t NilObj # rest)"
  shows "CallMethod E (Val mTyp f) s =
           (Panic, s'\<lparr>trace := trace s' @ [ECall (Val mTyp f) values]\<rparr>)"
  using assms by (simp add: CallMethod_supported)

text \<open>
  C2. A target that passes validation, takes no parameter and returns a nil \<open>error\<close>:
  \<open>result[0].Interface()\<close> is the nil interface, the assertion \<open>.(error)\<close> on it fails,
  and \<open>CallMethod\<close> panics after the target has run, where it is to return nil.
\<close>

theorem CallMethod_nil_error_panics:
  "CallMethod testEnv (func [] [errType] 2) \<lparr>injector = emptyInjector, trace = []\<rparr> =
     (Panic, \<lparr>injector = emptyInjector, trace = [ECall (func [] [errType] 2) []]\<rparr>)"
  by (simp add: CallMethod_def NumOut_def AssignableTo_def fixture_defs)

text \<open>
  C3. A vivifier that returns \<open>(nil, nil)\<close>: \<open>Get\<close> hands the nil to \<open>add\<close>, which takes
  the type of the zero Value and panics. Nothing is cached, but no error is returned,
  where \<open>Add\<close> and \<open>AddInterface\<close> return \<open>ErrNil\<close> for a nil.
\<close>

theorem Get_nil_vivified_panics:
  "Get testEnv stringT
     \<lparr>injector = emptyInjector\<lparr>Vivifiers := Some [stringT \<mapsto> vivNil]\<rparr>, trace = []\<rparr> =
   (Panic, \<lparr>injector = emptyInjector\<lparr>Vivifiers := Some [stringT \<mapsto> vivNil]\<rparr>,
            trace = [EVivify vivNil stringT]\<rparr>)"
  by (simp add: Get_def add_def reflected_def ValueOf_def fixture_defs)

end
